theory Spec2Isabelle
  imports Main
begin

section \<open>Strings and raw records\<close>

text \<open>
  A JavaScript string is modelled as a \<open>string\<close>; one \<open>char\<close> stands for one UTF-16 code
  unit, which is what \<open>String.length\<close> (and therefore Joi's \<open>min\<close>/\<open>max\<close>) counts. A
  \<open>char\<close> has 256 values, so the strings of the model are those whose code units are below
  256.
  A record emitted by csv-parser is an object whose own properties are the header names and
  whose values are always strings; it is modelled as an association list read with
  \<open>map_of\<close>. A cell that is missing from a short line is simply an absent key.
\<close>

type_synonym raw_record = "(string \<times> string) list"

definition dq :: char where
  "dq = CHR 0x22"

definition bslash :: char where
  "bslash = CHR 0x5C"

definition label :: "string \<Rightarrow> string" where
  "label k = dq # k @ [dq]"

fun join :: "string \<Rightarrow> string list \<Rightarrow> string" where
  "join sep [] = []"
| "join sep [x] = x"
| "join sep (x # y # ys) = x @ sep @ join sep (y # ys)"

section \<open>Row validator: \<open>csvRowSchema\<close>\<close>

text \<open>
  The regular expression \<open>/^\+?[1-9]\d{1,14}$/\<close> of the \<open>phone\<close> rule: an optional plus
  sign, one digit 1-9, then between one and fourteen digits 0-9, anchored at both ends.
\<close>

definition is_digit :: "char \<Rightarrow> bool" where
  "is_digit c = (c \<in> set ''0123456789'')"

definition strip_plus :: "string \<Rightarrow> string" where
  "strip_plus s = (case s of [] \<Rightarrow> [] | c # cs \<Rightarrow> if c = CHR ''+'' then cs else s)"

definition phone_regex :: "string \<Rightarrow> bool" where
  "phone_regex s =
     (case strip_plus s of
        [] \<Rightarrow> False
      | d # ds \<Rightarrow> d \<in> set ''123456789'' \<and> 1 \<le> length ds \<and> length ds \<le> 14 \<and> list_all is_digit ds)"

definition phone_regex_source :: string where
  "phone_regex_source = ''/^'' @ [bslash] @ ''+?[1-9]'' @ [bslash] @ ''d{1,14}$/''"

text \<open>
  One entry of Joi's \<open>error.details\<close>: the key it is about (\<open>path\<close>), Joi's error type
  (\<open>code\<close>) and the rendered message, which starts with the quoted key.
\<close>

record detail =
  path :: string
  code :: string
  message :: string

definition mk_detail :: "string \<Rightarrow> string \<Rightarrow> string \<Rightarrow> detail" where
  "mk_detail k c m = \<lparr>path = k, code = c, message = label k @ m\<rparr>"

text \<open>
  \<open>Joi.string()\<close> on one key: an absent value fails only when the key is \<open>required()\<close>;
  the empty string is rejected unless it was allowed with \<open>allow('')\<close>, and an allowed value
  skips the rules; otherwise every rule runs (\<open>abortEarly: false\<close>) and each failure adds
  one detail. The schema has no \<open>trim()\<close>, so \<open>convert: true\<close> changes no string.
\<close>

definition joi_string ::
  "string \<Rightarrow> bool \<Rightarrow> bool \<Rightarrow> (string \<Rightarrow> (string \<times> string) list) \<Rightarrow> string option \<Rightarrow> detail list" where
  "joi_string k required allow_empty rules v =
     (case v of
        None \<Rightarrow> if required then [mk_detail k ''any.required'' '' is required''] else []
      | Some s \<Rightarrow>
          if s = [] then
            (if allow_empty then [] else [mk_detail k ''string.empty'' '' is not allowed to be empty''])
          else map (\<lambda>(c, m). mk_detail k c m) (rules s))"

definition rule_min :: "nat \<Rightarrow> string \<Rightarrow> string \<Rightarrow> (string \<times> string) list" where
  "rule_min n shown s =
     (if length s < n then [(''string.min'', '' length must be at least '' @ shown @ '' characters long'')]
      else [])"

definition rule_max :: "nat \<Rightarrow> string \<Rightarrow> string \<Rightarrow> (string \<times> string) list" where
  "rule_max n shown s =
     (if n < length s
      then [(''string.max'', '' length must be less than or equal to '' @ shown @ '' characters long'')]
      else [])"

definition rule_pattern :: "string \<Rightarrow> (string \<times> string) list" where
  "rule_pattern s =
     (if phone_regex s then []
      else [(''string.pattern.base'',
             '' with value '' @ label s @ '' fails to match the required pattern: '' @ phone_regex_source)])"

text \<open>
  Joi's \<open>email()\<close> rule is library code; the validator takes it as the parameter
  \<open>email_ok\<close>.
\<close>

definition rule_email :: "(string \<Rightarrow> bool) \<Rightarrow> string \<Rightarrow> (string \<times> string) list" where
  "rule_email email_ok s = (if email_ok s then [] else [(''string.email'', '' must be a valid email'')])"

record CsvRow =
  name :: string
  phone :: string
  email :: "string option"
  source :: "string option"

text \<open>The details of all four keys, in the order of the schema.\<close>

definition csvRowSchema_details :: "(string \<Rightarrow> bool) \<Rightarrow> raw_record \<Rightarrow> detail list" where
  "csvRowSchema_details email_ok d =
     joi_string ''name'' True False (\<lambda>s. rule_min 2 ''2'' s @ rule_max 255 ''255'' s) (map_of d ''name'')
     @ joi_string ''phone'' True False rule_pattern (map_of d ''phone'')
     @ joi_string ''email'' False True (rule_email email_ok) (map_of d ''email'')
     @ joi_string ''source'' False False (rule_max 100 ''100'') (map_of d ''source'')"

text \<open>
  \<open>csvRowSchema.validate(data, {abortEarly: false, stripUnknown: true, convert: true})\<close>:
  either the details (\<open>Inl\<close>, Joi's \<open>error\<close>) or the value with the four known keys only
  (\<open>Inr\<close>). The two \<open>None\<close> branches of the value are never reached: a record without
  \<open>name\<close> or \<open>phone\<close> has a detail.
\<close>

definition csvRowSchema_validate :: "(string \<Rightarrow> bool) \<Rightarrow> raw_record \<Rightarrow> detail list + CsvRow" where
  "csvRowSchema_validate email_ok d =
     (let ds = csvRowSchema_details email_ok d in
      if ds \<noteq> [] then Inl ds
      else Inr \<lparr>name = (case map_of d ''name'' of None \<Rightarrow> [] | Some v \<Rightarrow> v),
                phone = (case map_of d ''phone'' of None \<Rightarrow> [] | Some v \<Rightarrow> v),
                email = map_of d ''email'',
                source = map_of d ''source''\<rparr>)"

text \<open>The validator accepts a key when no detail is about it.\<close>

definition accepts_key :: "(string \<Rightarrow> bool) \<Rightarrow> string \<Rightarrow> raw_record \<Rightarrow> bool" where
  "accepts_key email_ok k d = (filter (\<lambda>x. path x = k) (csvRowSchema_details email_ok d) = [])"

text \<open>
  White space as the regular expression class \<open>\s\<close> and \<open>String.prototype.trim\<close> see
  it (the code units below 256). \<open>spec_trim\<close> is \<open>trim\<close>, for the length bound as the
  specification words it ("trimmed length"): white space is removed at both ends. The source
  never calls it.
\<close>

definition is_space :: "char \<Rightarrow> bool" where
  "is_space c = (c \<in> set [CHR '' '', CHR 0x09, CHR 0x0A, CHR 0x0B, CHR 0x0C, CHR 0x0D, CHR 0xA0])"

definition spec_trim :: "string \<Rightarrow> string" where
  "spec_trim s = rev (dropWhile is_space (rev (dropWhile is_space s)))"


section \<open>The parse loop of \<open>processCsvFile\<close>\<close>

record validation_error =
  row :: nat
  data :: raw_record
  error :: string

text \<open>\<open>if (data.email === '') delete data.email\<close>, and the same for \<open>source\<close>.\<close>

definition delete_if_empty :: "string \<Rightarrow> raw_record \<Rightarrow> raw_record" where
  "delete_if_empty k d = (if map_of d k = Some [] then filter (\<lambda>kv. fst kv \<noteq> k) d else d)"

definition normalize :: "raw_record \<Rightarrow> raw_record" where
  "normalize d = delete_if_empty ''source'' (delete_if_empty ''email'' d)"

text \<open>
  The \<open>'data'\<close> handler. Its state is the counter \<open>rowNumber\<close> and the two arrays
  \<open>rows\<close> and \<open>errors\<close>; the counter is incremented before the record is looked at.
\<close>

definition error_entry :: "nat \<Rightarrow> raw_record \<Rightarrow> detail list \<Rightarrow> validation_error" where
  "error_entry n d ds = \<lparr>row = n, data = d, error = join '', '' (map message ds)\<rparr>"

definition on_data ::
  "(string \<Rightarrow> bool) \<Rightarrow> nat \<times> CsvRow list \<times> validation_error list \<Rightarrow> raw_record
     \<Rightarrow> nat \<times> CsvRow list \<times> validation_error list" where
  "on_data email_ok st d0 =
     (case st of (rowNumber, rows, errors) \<Rightarrow>
        let rowNumber' = rowNumber + 1;
            d = normalize d0
        in (case csvRowSchema_validate email_ok d of
              Inl ds \<Rightarrow> (rowNumber', rows, errors @ [error_entry rowNumber' d ds])
            | Inr v \<Rightarrow> (rowNumber', rows @ [v], errors)))"

definition parse_records ::
  "(string \<Rightarrow> bool) \<Rightarrow> raw_record list \<Rightarrow> nat \<times> CsvRow list \<times> validation_error list" where
  "parse_records email_ok records = foldl (on_data email_ok) (0, [], []) records"

definition valid_rows :: "(string \<Rightarrow> bool) \<Rightarrow> raw_record list \<Rightarrow> CsvRow list" where
  "valid_rows email_ok records = fst (snd (parse_records email_ok records))"

definition row_errors :: "(string \<Rightarrow> bool) \<Rightarrow> raw_record list \<Rightarrow> validation_error list" where
  "row_errors email_ok records = snd (snd (parse_records email_ok records))"

definition invalid_record :: "(string \<Rightarrow> bool) \<Rightarrow> raw_record \<Rightarrow> bool" where
  "invalid_record email_ok d = isl (csvRowSchema_validate email_ok (normalize d))"

section \<open>Lead store: table \<open>leads\<close> and \<open>LeadModel.bulkCreate\<close>\<close>

datatype LeadStatus = NEW | CONTACTED | QUALIFIED | CONVERTED

text \<open>
  A row of the table \<open>leads\<close>, with the seven columns that \<open>bulkCreate\<close> writes. The
  columns the database fills in itself (\<open>id\<close>, \<open>created_at\<close>, \<open>updated_at\<close>) are left out;
  the table is a list in insertion order.
\<close>

record lead =
  lead_name :: string
  lead_phone :: string
  lead_email :: "string option"
  lead_status :: LeadStatus
  lead_source :: "string option"
  assigned_to :: "nat option"
  image_url :: "string option"

text \<open>
  The table is created with \<open>DEFAULT CHARSET=utf8mb4\<close> and no \<open>COLLATE\<close>, so its string
  columns are compared under the server's default collation for \<open>utf8mb4\<close>, which on the
  MySQL 8.0 of \<open>terraform/main.tf\<close> ignores case and accents; equal strings are equal under it, and so are, for one, \<open>a@x.com\<close> and
  \<open>A@x.com\<close>. The collation is taken as a parameter \<open>coll\<close>: the function that sends a string
  to its sort key. Two column values are equal for an index exactly when their sort keys are.
\<close>

definition same_value :: "(string \<Rightarrow> string) \<Rightarrow> string \<Rightarrow> string \<Rightarrow> bool" where
  "same_value coll x y = (coll x = coll y)"

text \<open>
  \<open>UNIQUE KEY unique_phone_email (phone, email)\<close>: two rows collide on the key when both
  columns are equal. \<open>email\<close> is nullable, and a unique index never treats a \<open>NULL\<close> as equal
  to anything, so a row without an email collides with no row. The values are taken to fit
  their columns (the validator bounds \<open>name\<close>, \<open>phone\<close> and \<open>source\<close> below the column
  widths), so that nothing is truncated on the way in.
\<close>

definition unique_phone_email :: "(string \<Rightarrow> string) \<Rightarrow> lead \<Rightarrow> lead \<Rightarrow> bool" where
  "unique_phone_email coll a b =
     (same_value coll (lead_phone a) (lead_phone b) \<and>
      (case lead_email a of
         None \<Rightarrow> False
       | Some x \<Rightarrow> (case lead_email b of None \<Rightarrow> False | Some y \<Rightarrow> same_value coll x y)))"

text \<open>
  \<open>INSERT IGNORE INTO leads (...) VALUES (...), (...), ...\<close>: the rows are tried in order;
  a row that collides with a row of the table (one that was there before or one that this
  statement has just inserted) is dropped without an error, every other row is appended. The
  result is the new table and \<open>affectedRows\<close>, the number of rows inserted.
\<close>

fun insert_ignore :: "(string \<Rightarrow> string) \<Rightarrow> lead list \<Rightarrow> lead list \<Rightarrow> lead list \<times> nat" where
  "insert_ignore coll tbl [] = (tbl, 0)"
| "insert_ignore coll tbl (v # vs) =
     (if list_ex (unique_phone_email coll v) tbl then insert_ignore coll tbl vs
      else (case insert_ignore coll (tbl @ [v]) vs of (tbl', n) \<Rightarrow> (tbl', Suc n)))"

text \<open>
  \<open>LeadModel.findByPhoneOrEmail\<close>, "for duplicate checking": the first lead, in the order
  of the table, with that phone or, when an email is given, with that email. It is what
  \<open>LeadService.createLead\<close> asks before it inserts one lead.
\<close>

definition findByPhoneOrEmail ::
  "(string \<Rightarrow> string) \<Rightarrow> lead list \<Rightarrow> string \<Rightarrow> string option \<Rightarrow> lead option" where
  "findByPhoneOrEmail coll tbl ph em =
     find (\<lambda>l. same_value coll (lead_phone l) ph \<or>
                (case em of
                   None \<Rightarrow> False
                 | Some x \<Rightarrow> x \<noteq> [] \<and> (case lead_email l of None \<Rightarrow> False | Some y \<Rightarrow> same_value coll y x)))
       tbl"

text \<open>JavaScript's \<open>x || y\<close> on an optional string: absent and empty are both falsy.\<close>

definition or_else :: "string option \<Rightarrow> 'a \<Rightarrow> (string \<Rightarrow> 'a) \<Rightarrow> 'a" where
  "or_else x dflt f = (case x of None \<Rightarrow> dflt | Some s \<Rightarrow> if s = [] then dflt else f s)"

definition lead_values :: "CsvRow \<Rightarrow> lead" where
  "lead_values r =
     \<lparr>lead_name = name r,
      lead_phone = phone r,
      lead_email = or_else (email r) None Some,
      lead_status = NEW,
      lead_source = Some (or_else (source r) ''csv_import'' (\<lambda>s. s)),
      assigned_to = None,
      image_url = None\<rparr>"

section \<open>The world: object store, status store, lead store, queue\<close>

text \<open>
  What is thrown: \<open>ValidationError\<close> is the class of that name in \<open>utils/errors\<close>, the
  client error of the service; every other exception is an \<open>Error\<close> with its message.
\<close>

datatype exn = ValidationError string | Error string

fun exn_message :: "exn \<Rightarrow> string" where
  "exn_message (ValidationError m) = m"
| "exn_message (Error m) = m"

datatype job_status = pending | processing | completed | failed

record CsvLog =
  file_name :: string
  s3_key :: string
  upload_user_id :: int
  status :: job_status
  total_rows :: nat
  successful_imports :: nat
  failed_imports :: nat
  validation_errors :: "validation_error list"
  error_report :: "string option"
  processing_time_ms :: "nat option"
  started_at :: "nat option"
  created_at :: nat
  completed_at :: "nat option"

text \<open>
  The message body is the text that \<open>JSON.stringify\<close> writes and \<open>JSON.parse\<close> reads. Both
  are library functions; the model keeps a text that is valid JSON as the value it denotes
  (\<open>Text\<close>) and any other text as \<open>Garbage\<close>.
\<close>

datatype json = JNull | JNum int | JStr string | JObj "(string \<times> json) list"

datatype wire = Text json | Garbage string

definition JSON_stringify :: "json \<Rightarrow> wire" where
  "JSON_stringify j = Text j"

definition JSON_parse :: "wire \<Rightarrow> exn + json" where
  "JSON_parse t = (case t of Text j \<Rightarrow> Inr j | Garbage s \<Rightarrow> Inl (Error ''SyntaxError''))"

text \<open>
  Reading a property of a parsed body: \<open>null\<close> throws a \<open>TypeError\<close>, a number or a string
  has no such property, and in an object the last member of that name counts.
\<close>

definition get_property :: "json \<Rightarrow> string \<Rightarrow> exn + json option" where
  "get_property j k =
     (case j of
        JNull \<Rightarrow> Inl (Error ''TypeError'')
      | JObj kvs \<Rightarrow> Inr (map_of (rev kvs) k)
      | _ \<Rightarrow> Inr None)"

record attribute =
  DataType :: string
  StringValue :: string

record send_command =
  MessageBody :: wire
  MessageAttributes :: "(string \<times> attribute) list"

record sqs_message =
  Body :: "wire option"
  ReceiptHandle :: nat
  Attributes :: "(string \<times> attribute) list"

text \<open>
  The calls to the outside that can throw. \<open>fault\<close> of the environment says which of them
  throw during the operation at hand, and with which message.
\<close>

datatype call =
  PresignPut | S3Put | MongoCreate | SqsSend
  | MarkProcessing | PresignGet | Fetch | ReadText | BulkInsert | MarkCompleted | MarkFailed
  | SqsReceive | SqsDelete

text \<open>
  What one operation takes from its surroundings: the faults, the csv-parser library (the
  records of a text, or the error of its stream), Joi's email rule, the collation of the
  database's string columns, the value of \<open>Date.now()\<close> (one value for the whole operation)
  and the \<open>ObjectId\<close> that the driver generates for a new document.
\<close>

record env =
  fault :: "call \<Rightarrow> string option"
  csv_parser :: "string \<Rightarrow> string + raw_record list"
  joi_email :: "string \<Rightarrow> bool"
  collation :: "string \<Rightarrow> string"
  now :: nat
  new_oid :: string

record world =
  s3_csv :: "(string \<times> string) list"
  csv_logs :: "(string \<times> CsvLog) list"
  leads :: "lead list"
  queue :: "sqs_message list"
  next_handle :: nat
  mysql_executes :: nat

section \<open>Storage keys: \<open>S3Service.generateCsvUploadUrl\<close>\<close>

text \<open>The decimal digits of a number, as a template literal renders \<open>Date.now()\<close>.\<close>

definition digit_char :: "nat \<Rightarrow> char" where
  "digit_char d = ''0123456789'' ! d"

fun show_nat :: "nat \<Rightarrow> string" where
  "show_nat n = (if n < 10 then [digit_char n] else show_nat (n div 10) @ [digit_char (n mod 10)])"

text \<open>\<open>fileName.replace(/\s+/g, '_')\<close>: every maximal run of white space becomes one underscore.\<close>

function replace_spaces :: "string \<Rightarrow> string" where
  "replace_spaces [] = []"
| "replace_spaces (c # cs) =
     (if is_space c then CHR ''_'' # replace_spaces (dropWhile is_space cs)
      else c # replace_spaces cs)"
  by pat_completeness auto
termination
  by (relation "measure length") (auto simp: length_dropWhile_le less_Suc_eq_le)

definition csv_key :: "nat \<Rightarrow> string \<Rightarrow> string" where
  "csv_key t fileName = ''csv/'' @ show_nat t @ ''-'' @ replace_spaces fileName"

definition generateCsvUploadUrl :: "env \<Rightarrow> string \<Rightarrow> exn + string" where
  "generateCsvUploadUrl e fileName =
     (let key = csv_key (now e) fileName in
      case fault e PresignPut of Some m \<Rightarrow> Inl (Error m) | None \<Rightarrow> Inr key)"

text \<open>\<open>S3Service.uploadBuffer\<close>: a put replaces whatever was stored under the key.\<close>

definition uploadBuffer :: "env \<Rightarrow> world \<Rightarrow> string \<Rightarrow> string \<Rightarrow> (exn + unit) \<times> world" where
  "uploadBuffer e w buf key =
     (case fault e S3Put of
        Some m \<Rightarrow> (Inl (Error m), w)
      | None \<Rightarrow> (Inr (), w\<lparr>s3_csv := (key, buf) # filter (\<lambda>kv. fst kv \<noteq> key) (s3_csv w)\<rparr>))"

section \<open>Staging uploader: \<open>CsvService.uploadCsvForProcessing\<close>\<close>

record multer_file =
  mimetype :: string
  file_size :: nat
  originalname :: string
  buffer :: string

record job_data =
  csvLogId :: string
  s3Key :: string
  userId :: int

record upload_result =
  res_csvLogId :: string
  res_s3Key :: string
  res_message :: string

text \<open>
  The schema marks \<open>file_name\<close> and \<open>s3_key\<close> as \<open>required: true\<close>, which for a string
  also refuses the empty one; \<open>upload_user_id\<close>, the third required path, is always a number
  here. The messages are those of mongoose's validation, one per failing path.
\<close>

definition required_paths :: "CsvLog \<Rightarrow> string list" where
  "required_paths doc =
     (if file_name doc = [] then [''file_name: Path `file_name` is required.''] else [])
     @ (if s3_key doc = [] then [''s3_key: Path `s3_key` is required.''] else [])"

text \<open>
  \<open>CsvLog.create\<close>: the document is validated against the schema before anything is sent;
  then it is stored under a new id; an id already taken is a duplicate key error.
\<close>

definition CsvLog_create :: "env \<Rightarrow> world \<Rightarrow> CsvLog \<Rightarrow> (exn + string) \<times> world" where
  "CsvLog_create e w doc =
     (if required_paths doc \<noteq> []
      then (Inl (Error (''CsvLog validation failed: '' @ join '', '' (required_paths doc))), w)
      else
        case fault e MongoCreate of
          Some m \<Rightarrow> (Inl (Error m), w)
        | None \<Rightarrow>
            if map_of (csv_logs w) (new_oid e) \<noteq> None then (Inl (Error ''E11000 duplicate key''), w)
            else (Inr (new_oid e), w\<lparr>csv_logs := csv_logs w @ [(new_oid e, doc)]\<rparr>))"

definition processing_command :: "job_data \<Rightarrow> send_command" where
  "processing_command d =
     \<lparr>MessageBody = JSON_stringify
        (JObj [(''csvLogId'', JStr (csvLogId d)), (''s3Key'', JStr (s3Key d)), (''userId'', JNum (userId d))]),
      MessageAttributes = [(''jobType'', \<lparr>DataType = ''String'', StringValue = ''csv_processing''\<rparr>)]\<rparr>"

text \<open>Sending appends the message to the queue; the queue gives it the handle it is later deleted by.\<close>

definition sqs_send :: "env \<Rightarrow> world \<Rightarrow> send_command \<Rightarrow> (exn + unit) \<times> world" where
  "sqs_send e w c =
     (case fault e SqsSend of
        Some m \<Rightarrow> (Inl (Error m), w)
      | None \<Rightarrow>
          (Inr (), w\<lparr>queue := queue w @ [\<lparr>Body = Some (MessageBody c), ReceiptHandle = next_handle w,
                                            Attributes = MessageAttributes c\<rparr>],
                     next_handle := Suc (next_handle w)\<rparr>))"

definition sendToProcessingQueue :: "env \<Rightarrow> world \<Rightarrow> job_data \<Rightarrow> (exn + unit) \<times> world" where
  "sendToProcessingQueue e w d = sqs_send e w (processing_command d)"

definition uploadCsvForProcessing ::
  "env \<Rightarrow> world \<Rightarrow> multer_file \<Rightarrow> int \<Rightarrow> (exn + upload_result) \<times> world" where
  "uploadCsvForProcessing e w file uid =
     (if mimetype file \<noteq> ''text/csv'' \<and> mimetype file \<noteq> ''application/vnd.ms-excel''
      then (Inl (ValidationError ''Only CSV files are allowed''), w)
      else if file_size file > 10 * 1024 * 1024
      then (Inl (ValidationError ''File size must not exceed 10MB''), w)
      else
        let fileName = originalname file in
        case generateCsvUploadUrl e fileName of
          Inl x \<Rightarrow> (Inl x, w)
        | Inr key \<Rightarrow>
           (case uploadBuffer e w (buffer file) key of
              (Inl x, w1) \<Rightarrow> (Inl x, w1)
            | (Inr u, w1) \<Rightarrow>
               (case CsvLog_create e w1
                       \<lparr>file_name = fileName, s3_key = key, upload_user_id = uid, status = pending,
                        total_rows = 0, successful_imports = 0, failed_imports = 0,
                        validation_errors = [], error_report = None, processing_time_ms = None,
                        started_at = None, created_at = now e, completed_at = None\<rparr> of
                  (Inl x, w2) \<Rightarrow> (Inl x, w2)
                | (Inr oid, w2) \<Rightarrow>
                   (case sendToProcessingQueue e w2 \<lparr>csvLogId = oid, s3Key = key, userId = uid\<rparr> of
                      (Inl x, w3) \<Rightarrow> (Inl x, w3)
                    | (Inr u', w3) \<Rightarrow>
                       (Inr \<lparr>res_csvLogId = oid, res_s3Key = key,
                             res_message = ''CSV uploaded successfully and queued for processing''\<rparr>,
                        w3)))))"

section \<open>Status tracker reads\<close>

record history_entry =
  h_id :: string
  h_file_name :: string
  h_status :: job_status
  h_total_rows :: nat
  h_successful_imports :: nat
  h_failed_imports :: nat
  h_created_at :: nat
  h_completed_at :: "nat option"

text \<open>
  \<open>CsvService.getUserCsvHistory\<close>: the uploader's documents, newest first, at most
  \<open>limit\<close> of them. Documents created in the same millisecond come in some fixed order.
\<close>

definition getUserCsvHistory :: "world \<Rightarrow> int \<Rightarrow> nat \<Rightarrow> history_entry list" where
  "getUserCsvHistory w uid limit =
     map (\<lambda>(i, l). \<lparr>h_id = i, h_file_name = file_name l, h_status = status l,
                     h_total_rows = total_rows l, h_successful_imports = successful_imports l,
                     h_failed_imports = failed_imports l, h_created_at = created_at l,
                     h_completed_at = completed_at l\<rparr>)
       (take limit (rev (sort_key (\<lambda>(i, l). created_at l)
          (filter (\<lambda>(i, l). upload_user_id l = uid) (csv_logs w)))))"

section \<open>Bulk writer: \<open>LeadModel.bulkCreate\<close>\<close>

text \<open>
  The empty batch returns before anything is sent to the database. Otherwise one statement is
  executed (\<open>mysql_executes\<close> counts them); when it throws, no row is written.
\<close>

definition bulkCreate :: "env \<Rightarrow> world \<Rightarrow> CsvRow list \<Rightarrow> (exn + nat) \<times> world" where
  "bulkCreate e w rows =
     (if length rows = 0 then (Inr 0, w)
      else
        let values = map lead_values rows in
        case fault e BulkInsert of
          Some m \<Rightarrow> (Inl (Error m), w\<lparr>mysql_executes := Suc (mysql_executes w)\<rparr>)
        | None \<Rightarrow>
           (case insert_ignore (collation e) (leads w) values of
              (tbl, affectedRows) \<Rightarrow>
                (Inr affectedRows, w\<lparr>leads := tbl, mysql_executes := Suc (mysql_executes w)\<rparr>)))"

section \<open>Worker: \<open>CsvService.processCsvFile\<close> and \<open>CsvProcessor.pollQueue\<close>\<close>

text \<open>
  \<open>CsvLog.updateOne({_id: id}, {$set: ...})\<close>: the document of that id is changed, if
  there is one. Ids are compared as strings, which is the driver's comparison for ids in the
  form in which \<open>_id.toString()\<close> renders them and \<open>sendToProcessingQueue\<close> sends them: 24
  hexadecimal digits with small letters. For any other string mongoose first casts the id to
  an \<open>ObjectId\<close>; a cast that fails is one of the ways in which the two status writes throw
  (see \<open>fault\<close>), and the cast of an id with capital digits is not modelled.
\<close>

definition updateOne :: "string \<Rightarrow> (CsvLog \<Rightarrow> CsvLog) \<Rightarrow> world \<Rightarrow> world" where
  "updateOne i f w = w\<lparr>csv_logs := map (\<lambda>(j, l). if j = i then (j, f l) else (j, l)) (csv_logs w)\<rparr>"

text \<open>
  The body of the \<open>try\<close> block. Every call to the outside can throw; a staged object that is
  missing answers the download with a status that is not \<open>ok\<close>. The result is what the block
  threw (\<open>Inl\<close>) or its normal end, with the world as the block left it.
\<close>

definition process_try :: "env \<Rightarrow> world \<Rightarrow> string \<Rightarrow> string \<Rightarrow> (exn + unit) \<times> world" where
  "process_try e w i key =
     (let startTime = now e in
      case fault e MarkProcessing of
        Some m \<Rightarrow> (Inl (Error m), w)
      | None \<Rightarrow>
         (let w1 = updateOne i (\<lambda>l. l\<lparr>status := processing, started_at := Some (now e)\<rparr>) w in
          case fault e PresignGet of
            Some m \<Rightarrow> (Inl (Error m), w1)
          | None \<Rightarrow>
             (case fault e Fetch of
                Some m \<Rightarrow> (Inl (Error m), w1)
              | None \<Rightarrow>
                 (case map_of (s3_csv w1) key of
                    None \<Rightarrow> (Inl (Error ''Failed to download CSV: 404 Not Found''), w1)
                  | Some body \<Rightarrow>
                     (case fault e ReadText of
                        Some m \<Rightarrow> (Inl (Error m), w1)
                      | None \<Rightarrow>
                         (case csv_parser e body of
                            Inl m \<Rightarrow> (Inl (Error m), w1)
                          | Inr records \<Rightarrow>
                             (case parse_records (joi_email e) records of
                                (rowNumber, rows, errors) \<Rightarrow>
                                 (case bulkCreate e w1 rows of
                                    (Inl x, w2) \<Rightarrow> (Inl x, w2)
                                  | (Inr successfulImports, w2) \<Rightarrow>
                                     (let processingTime = now e - startTime in
                                      case fault e MarkCompleted of
                                        Some m \<Rightarrow> (Inl (Error m), w2)
                                      | None \<Rightarrow>
                                         (Inr (),
                                          updateOne i
                                            (\<lambda>l. l\<lparr>status := completed,
                                                   total_rows := length rows + length errors,
                                                   successful_imports := successfulImports,
                                                   failed_imports := length errors,
                                                   validation_errors := errors,
                                                   processing_time_ms := Some processingTime,
                                                   completed_at := Some (now e)\<rparr>)
                                            w2))))))))))"

text \<open>
  The \<open>catch\<close> block records the failure and returns normally; only a failure of that
  very write leaves \<open>processCsvFile\<close> with an exception.
\<close>

definition processCsvFile :: "env \<Rightarrow> world \<Rightarrow> string \<Rightarrow> string \<Rightarrow> (exn + unit) \<times> world" where
  "processCsvFile e w i key =
     (case process_try e w i key of
        (Inr u, w') \<Rightarrow> (Inr u, w')
      | (Inl err, w') \<Rightarrow>
         (case fault e MarkFailed of
            Some m \<Rightarrow> (Inl (Error m), w')
          | None \<Rightarrow>
             (Inr (),
              updateOne i
                (\<lambda>l. l\<lparr>status := failed, error_report := Some (exn_message err),
                       completed_at := Some (now e)\<rparr>)
                w')))"

definition deleteMessage :: "env \<Rightarrow> world \<Rightarrow> nat \<Rightarrow> (exn + unit) \<times> world" where
  "deleteMessage e w h =
     (case fault e SqsDelete of
        Some m \<Rightarrow> (Inl (Error m), w)
      | None \<Rightarrow> (Inr (), w\<lparr>queue := filter (\<lambda>m. ReceiptHandle m \<noteq> h) (queue w)\<rparr>))"

text \<open>\<open>message.Body || '{}'\<close>: a missing or empty body is read as the empty object.\<close>

definition body_or_default :: "wire option \<Rightarrow> wire" where
  "body_or_default b =
     (case b of
        None \<Rightarrow> Text (JObj [])
      | Some t \<Rightarrow> if t = Garbage [] then Text (JObj []) else t)"

text \<open>
  One turn of the \<open>for\<close> loop of \<open>pollQueue\<close>, with its \<open>try\<close>/\<open>catch\<close>: whatever is
  thrown is logged and the loop goes on. \<open>processCsvFile\<close> is typed for two strings; a body
  whose \<open>csvLogId\<close> or \<open>s3Key\<close> is not a string is outside this model, and the result is
  \<open>None\<close> there.
\<close>

definition handle_message :: "env \<Rightarrow> world \<Rightarrow> sqs_message \<Rightarrow> world option" where
  "handle_message e w msg =
     (case JSON_parse (body_or_default (Body msg)) of
        Inl x \<Rightarrow> Some w
      | Inr body \<Rightarrow>
         (case get_property body ''csvLogId'' of
            Inl x \<Rightarrow> Some w
          | Inr a \<Rightarrow>
             (case get_property body ''s3Key'' of
                Inl x \<Rightarrow> Some w
              | Inr b \<Rightarrow>
                 (case (a, b) of
                    (Some (JStr i), Some (JStr key)) \<Rightarrow>
                      (case processCsvFile e w i key of
                         (Inl x, w1) \<Rightarrow> Some w1
                       | (Inr u, w1) \<Rightarrow> Some (snd (deleteMessage e w1 (ReceiptHandle msg))))
                  | _ \<Rightarrow> None))))"

fun handle_messages :: "env \<Rightarrow> world \<Rightarrow> sqs_message list \<Rightarrow> world option" where
  "handle_messages e w [] = Some w"
| "handle_messages e w (m # ms) =
     (case handle_message e w m of None \<Rightarrow> None | Some w' \<Rightarrow> handle_messages e w' ms)"

text \<open>
  \<open>pollQueue\<close>: at most one message is received (\<open>MaxNumberOfMessages: 1\<close>); receiving
  does not take it off the queue. A failing receive is the only exception that leaves
  \<open>pollQueue\<close>.
\<close>

definition pollQueue :: "env \<Rightarrow> world \<Rightarrow> (exn + unit) \<times> world option" where
  "pollQueue e w =
     (case fault e SqsReceive of
        Some m \<Rightarrow> (Inl (Error m), Some w)
      | None \<Rightarrow> (Inr (), handle_messages e w (take 1 (queue w))))"

section \<open>Reading a job's counters\<close>

definition counters :: "CsvLog \<Rightarrow> job_status \<times> nat \<times> nat \<times> nat" where
  "counters l = (status l, total_rows l, successful_imports l, failed_imports l)"

definition job_counters :: "world \<Rightarrow> string \<Rightarrow> (job_status \<times> nat \<times> nat \<times> nat) option" where
  "job_counters w i = map_option counters (map_of (csv_logs w) i)"

section \<open>Sample data\<close>

text \<open>
  A concrete environment and concrete worlds for the examples below: no call fails, the
  parser is the table of what csv-parser yields on the two sample files, and the email rule
  is the table of the sample addresses (all of them pass Joi's rule).
\<close>

definition no_fault :: "call \<Rightarrow> string option" where
  "no_fault c = None"

definition alice_csv :: string where
  "alice_csv = ''name,phone,email'' @ [CHR 0x0A] @ ''Alice,+14155551234,a@x.com'' @ [CHR 0x0A]"

definition three_csv :: string where
  "three_csv = ''name,phone'' @ [CHR 0x0A] @ ''Alice,+14155551234'' @ [CHR 0x0A]
     @ ''B,+14155551235'' @ [CHR 0x0A] @ ''Carol,+14155551236'' @ [CHR 0x0A]"

definition alice_record :: raw_record where
  "alice_record = [(''name'', ''Alice''), (''phone'', ''+14155551234''), (''email'', ''a@x.com'')]"

definition three_records :: "raw_record list" where
  "three_records =
     [[(''name'', ''Alice''), (''phone'', ''+14155551234'')],
      [(''name'', ''B''), (''phone'', ''+14155551235'')],
      [(''name'', ''Carol''), (''phone'', ''+14155551236'')]]"

definition sample_parser :: "string \<Rightarrow> string + raw_record list" where
  "sample_parser body =
     (if body = alice_csv then Inr [alice_record]
      else if body = three_csv then Inr three_records
      else Inl ''not a sample file'')"

definition sample_email :: "string \<Rightarrow> bool" where
  "sample_email s = (s = ''a@x.com'' \<or> s = ''b@x.com'' \<or> s = ''A@x.com'')"

text \<open>
  The sample collation folds the capitals A to Z onto the small letters and leaves every
  other code unit as it is. On the sample strings, which consist of letters, digits, \<open>+\<close>,
  \<open>@\<close> and the full stop, it decides equality as the default collation does.
\<close>

definition ascii_lower :: "char \<Rightarrow> char" where
  "ascii_lower c =
     (case map_of (zip ''ABCDEFGHIJKLMNOPQRSTUVWXYZ'' ''abcdefghijklmnopqrstuvwxyz'') c of
        None \<Rightarrow> c
      | Some l \<Rightarrow> l)"

definition sample_collation :: "string \<Rightarrow> string" where
  "sample_collation s = map ascii_lower s"

definition sample_env :: env where
  "sample_env =
     \<lparr>fault = no_fault, csv_parser = sample_parser, joi_email = sample_email,
      collation = sample_collation,
      now = 1700000000000, new_oid = ''665f1c2ab7e4d90012345678''\<rparr>"

definition empty_world :: world where
  "empty_world = \<lparr>s3_csv = [], csv_logs = [], leads = [], queue = [], next_handle = 0, mysql_executes = 0\<rparr>"

definition alice_file :: multer_file where
  "alice_file = \<lparr>mimetype = ''text/csv'', file_size = 44, originalname = ''leads.csv'', buffer = alice_csv\<rparr>"

definition sample_key :: string where
  "sample_key = ''csv/1700000000000-leads.csv''"

definition pending_log :: CsvLog where
  "pending_log =
     \<lparr>file_name = ''leads.csv'', s3_key = sample_key, upload_user_id = 7, status = pending,
      total_rows = 0, successful_imports = 0, failed_imports = 0, validation_errors = [],
      error_report = None, processing_time_ms = None, started_at = None,
      created_at = 1700000000000, completed_at = None\<rparr>"

definition job_body :: json where
  "job_body = JObj [(''csvLogId'', JStr ''665f1c2ab7e4d90012345678''),
                    (''s3Key'', JStr sample_key), (''userId'', JNum 7)]"

definition job_message :: sqs_message where
  "job_message =
     \<lparr>Body = Some (Text job_body),
      ReceiptHandle = 0,
      Attributes = [(''jobType'', \<lparr>DataType = ''String'', StringValue = ''csv_processing''\<rparr>)]\<rparr>"

text \<open>The world right after \<open>leads.csv\<close> was uploaded by user 7 into the empty world.\<close>

definition staged_world :: world where
  "staged_world =
     \<lparr>s3_csv = [(sample_key, alice_csv)],
      csv_logs = [(''665f1c2ab7e4d90012345678'', pending_log)],
      leads = [], queue = [job_message], next_handle = 1, mysql_executes = 0\<rparr>"

definition alice_lead :: lead where
  "alice_lead =
     \<lparr>lead_name = ''Alice'', lead_phone = ''+14155551234'', lead_email = Some ''a@x.com'',
      lead_status = CONTACTED, lead_source = Some ''web'', assigned_to = Some 3, image_url = None\<rparr>"

text \<open>The same, with Alice already among the leads.\<close>

definition known_world :: world where
  "known_world = staged_world\<lparr>leads := [alice_lead]\<rparr>"

text \<open>The database refuses the connection during the bulk insert.\<close>

definition db_down_env :: env where
  "db_down_env = sample_env\<lparr>fault := no_fault(BulkInsert := Some ''connect ECONNREFUSED'')\<rparr>"

text \<open>A second contact with Alice's phone and another email.\<close>

definition bob_row :: CsvRow where
  "bob_row = \<lparr>name = ''Bob'', phone = ''+14155551234'', email = Some ''b@x.com'', source = None\<rparr>"

text \<open>Alice once more, her email written with a capital; and a contact without an email.\<close>

definition alice_row :: CsvRow where
  "alice_row = \<lparr>name = ''Alice'', phone = ''+14155551234'', email = Some ''A@x.com'', source = None\<rparr>"

definition carol_row :: CsvRow where
  "carol_row = \<lparr>name = ''Carol'', phone = ''+14155551236'', email = None, source = None\<rparr>"

text \<open>
  A second upload of a file called \<open>leads.csv\<close>, by user 8, with other bytes, served in the
  same millisecond as the first: the same \<open>now\<close>, another \<open>ObjectId\<close>.
\<close>

definition bob_csv :: string where
  "bob_csv = ''name,phone,email'' @ [CHR 0x0A] @ ''Bob,+14155551234,b@x.com'' @ [CHR 0x0A]"

definition bob_file :: multer_file where
  "bob_file = \<lparr>mimetype = ''text/csv'', file_size = 42, originalname = ''leads.csv'', buffer = bob_csv\<rparr>"

definition second_env :: env where
  "second_env = sample_env\<lparr>new_oid := ''665f1c2ab7e4d90012345679''\<rparr>"

definition json_file :: multer_file where
  "json_file = \<lparr>mimetype = ''application/json'', file_size = 1024, originalname = ''data.json'', buffer = ''{}''\<rparr>"

definition large_file :: multer_file where
  "large_file =
     \<lparr>mimetype = ''text/csv'', file_size = 11 * 1024 * 1024, originalname = ''large.csv'', buffer = alice_csv\<rparr>"

section \<open>Collections of defining equations\<close>

lemmas sample_defs = sample_env_def empty_world_def alice_file_def sample_key_def pending_log_def
  job_message_def job_body_def staged_world_def alice_lead_def known_world_def db_down_env_def no_fault_def
  sample_parser_def sample_email_def alice_csv_def three_csv_def alice_record_def three_records_def
  bob_row_def alice_row_def carol_row_def bob_csv_def bob_file_def second_env_def json_file_def large_file_def

lemmas validator_defs = csvRowSchema_validate_def csvRowSchema_details_def joi_string_def rule_min_def
  rule_max_def rule_pattern_def rule_email_def mk_detail_def phone_regex_def strip_plus_def is_digit_def
  normalize_def delete_if_empty_def

lemmas worker_defs = handle_message_def JSON_parse_def body_or_default_def get_property_def
  processCsvFile_def process_try_def updateOne_def bulkCreate_def deleteMessage_def
  parse_records_def on_data_def error_entry_def lead_values_def or_else_def

section \<open>Row validator\<close>

lemma path_joi_string: "x \<in> set (joi_string k r a rules v) \<Longrightarrow> path x = k"
  by (auto simp: joi_string_def mk_detail_def split: option.splits if_splits)

lemma filter_joi_string:
  "filter (\<lambda>x. path x = k) (joi_string k' r a rules v) = (if k = k' then joi_string k' r a rules v else [])"
  by (auto simp: filter_empty_conv filter_id_conv dest: path_joi_string)

lemma accepts_name:
  "accepts_key ok ''name'' d =
     (joi_string ''name'' True False (\<lambda>s. rule_min 2 ''2'' s @ rule_max 255 ''255'' s) (map_of d ''name'') = [])"
  by (simp add: accepts_key_def csvRowSchema_details_def filter_joi_string)

lemma accepts_phone:
  "accepts_key ok ''phone'' d = (joi_string ''phone'' True False rule_pattern (map_of d ''phone'') = [])"
  by (simp add: accepts_key_def csvRowSchema_details_def filter_joi_string)

lemma phone_examples:
  "phone_regex ''+14155551234''" "phone_regex ''5551234''" "\<not> phone_regex ''++1''"
  by (simp_all add: phone_regex_def strip_plus_def is_digit_def)

text \<open>
  C4, as amended. A record whose \<open>phone\<close> does not match the pattern fails validation, and
  one of the details is about \<open>phone\<close>, its message starting with the quoted key; the
  validator accepts the phone of a record exactly when it is present and matches. Of the
  examples, \<open>+14155551234\<close> and \<open>5551234\<close> match, \<open>++1\<close> does not.
\<close>

theorem phone_rule:
  "(map_of d ''phone'' = Some p \<and> \<not> phone_regex p \<longrightarrow>
      (\<exists>ds. csvRowSchema_validate ok d = Inl ds \<and>
            (\<exists>x\<in>set ds. path x = ''phone'' \<and> take 7 (message x) = label ''phone'')))
   \<and> accepts_key ok ''phone'' d = (case map_of d ''phone'' of None \<Rightarrow> False | Some v \<Rightarrow> phone_regex v)
   \<and> phone_regex ''+14155551234'' \<and> phone_regex ''5551234'' \<and> \<not> phone_regex ''++1''"
proof (intro conjI impI)
  assume "map_of d ''phone'' = Some p \<and> \<not> phone_regex p"
  then show "\<exists>ds. csvRowSchema_validate ok d = Inl ds \<and>
            (\<exists>x\<in>set ds. path x = ''phone'' \<and> take 7 (message x) = label ''phone'')"
    by (auto simp: csvRowSchema_validate_def csvRowSchema_details_def joi_string_def
          rule_pattern_def mk_detail_def label_def Let_def)
next
  show "accepts_key ok ''phone'' d = (case map_of d ''phone'' of None \<Rightarrow> False | Some v \<Rightarrow> phone_regex v)"
    by (simp add: accepts_phone joi_string_def rule_pattern_def phone_regex_def strip_plus_def
          split: option.splits)
qed (rule phone_examples)+

theorem phone_rule_witness:
  "map_of [(''name'', ''Alice''), (''phone'', ''++1'')] ''phone'' = Some ''++1'' \<and> \<not> phone_regex ''++1'' \<and>
   (\<exists>ds. csvRowSchema_validate sample_email [(''name'', ''Alice''), (''phone'', ''++1'')] = Inl ds \<and>
         (\<exists>x\<in>set ds. path x = ''phone'' \<and> take 7 (message x) = label ''phone''))"
proof -
  have h: "map_of [(''name'', ''Alice''), (''phone'', ''++1'')] ''phone'' = Some ''++1'' \<and> \<not> phone_regex ''++1''"
    by (simp add: phone_examples)
  from phone_rule [of "[(''name'', ''Alice''), (''phone'', ''++1'')]" "''++1''" sample_email] h
  show ?thesis by blast
qed

text \<open>
  C4 as stated fails: it lists \<open>5551234\<close> among the rejected values, and the validator
  accepts a record with that phone.
\<close>

theorem local_number_is_accepted:
  "csvRowSchema_validate sample_email [(''name'', ''Alice''), (''phone'', ''5551234'')] =
     Inr \<lparr>name = ''Alice'', phone = ''5551234'', email = None, source = None\<rparr>"
  by (simp add: validator_defs Let_def)

text \<open>
  C7, as amended. The validator accepts the name of a record exactly when the key is present
  and the length of the value as it was parsed, white space included, is between 2 and 255;
  a record whose name is not accepted yields the error, never a row.
\<close>

theorem name_rule:
  "accepts_key ok ''name'' d =
     (case map_of d ''name'' of None \<Rightarrow> False | Some v \<Rightarrow> 2 \<le> length v \<and> length v \<le> 255)
   \<and> (\<not> accepts_key ok ''name'' d \<longrightarrow> isl (csvRowSchema_validate ok d))"
proof
  show "accepts_key ok ''name'' d =
     (case map_of d ''name'' of None \<Rightarrow> False | Some v \<Rightarrow> 2 \<le> length v \<and> length v \<le> 255)"
    by (auto simp: accepts_name joi_string_def rule_min_def rule_max_def split: option.splits)
next
  show "\<not> accepts_key ok ''name'' d \<longrightarrow> isl (csvRowSchema_validate ok d)"
    by (simp add: accepts_name csvRowSchema_validate_def csvRowSchema_details_def Let_def)
qed

theorem name_rule_witness:
  "\<not> accepts_key sample_email ''name'' [(''name'', ''B''), (''phone'', ''+14155551234'')] \<and>
   isl (csvRowSchema_validate sample_email [(''name'', ''B''), (''phone'', ''+14155551234'')])"
proof -
  have h: "\<not> accepts_key sample_email ''name'' [(''name'', ''B''), (''phone'', ''+14155551234'')]"
    by (simp add: accepts_name joi_string_def rule_min_def rule_max_def)
  from name_rule [of sample_email "[(''name'', ''B''), (''phone'', ''+14155551234'')]"] h
  show ?thesis by blast
qed

text \<open>
  C7 as stated fails: the name \<open>" a"\<close> has trimmed length 1, and the validator accepts
  the record, because it measures the untrimmed value.
\<close>

theorem padded_name_is_accepted:
  "csvRowSchema_validate sample_email [(''name'', '' a''), (''phone'', ''+14155551234'')] =
     Inr \<lparr>name = '' a'', phone = ''+14155551234'', email = None, source = None\<rparr>
   \<and> length (spec_trim '' a'') = 1"
  by (simp add: validator_defs Let_def spec_trim_def is_space_def)

section \<open>Row numbers\<close>

lemma on_data_eq:
  "on_data ok (n, rows, errs) r =
     (if invalid_record ok r
      then (Suc n, rows, errs @ [error_entry (Suc n) (normalize r) (csvRowSchema_details ok (normalize r))])
      else (Suc n, rows @ [projr (csvRowSchema_validate ok (normalize r))], errs))"
  by (simp add: on_data_def invalid_record_def csvRowSchema_validate_def Let_def)

lemma parse_records_snoc:
  "parse_records ok (rs @ [r]) = on_data ok (parse_records ok rs) r"
  by (simp add: parse_records_def)

lemma parse_records_shape:
  "parse_records ok rs =
     (length rs,
      map (\<lambda>r. projr (csvRowSchema_validate ok (normalize r))) (filter (\<lambda>r. \<not> invalid_record ok r) rs),
      map (\<lambda>(i, r). error_entry i (normalize r) (csvRowSchema_details ok (normalize r)))
        (filter (\<lambda>(i, r). invalid_record ok r) (zip [1..<Suc (length rs)] rs)))"
proof (induction rs rule: rev_induct)
  case Nil
  show ?case by (simp add: parse_records_def)
next
  case (snoc r rs)
  have "[1..<Suc (length (rs @ [r]))] = [1..<Suc (length rs)] @ [Suc (length rs)]"
    by simp
  moreover have "length [1..<Suc (length rs)] = length rs"
    by (simp del: upt_Suc)
  ultimately have z:
    "zip [1..<Suc (length (rs @ [r]))] (rs @ [r]) = zip [1..<Suc (length rs)] rs @ [(Suc (length rs), r)]"
    by (simp only: zip_append zip.simps list.case)
  show ?case
    unfolding parse_records_snoc snoc.IH z on_data_eq
    by simp
qed

lemma length_parse_records:
  "length (valid_rows ok rs) + length (row_errors ok rs) = length rs"
proof (induction rs rule: rev_induct)
  case Nil
  show ?case by (simp add: valid_rows_def row_errors_def parse_records_def)
next
  case (snoc r rs)
  obtain n rows errs where p: "parse_records ok rs = (n, rows, errs)"
    by (cases "parse_records ok rs") auto
  with snoc show ?case
    by (simp add: valid_rows_def row_errors_def parse_records_snoc on_data_eq)
qed

text \<open>
  C8. The errors of a parse are the invalid records, in order, each with its 1-based
  position among the records that the parser emitted (the header line is not a record); the
  field is called \<open>row\<close> in the code. Three records of which only the second is invalid
  give exactly one error, with row 2.
\<close>

theorem row_numbers:
  "row_errors ok rs =
     map (\<lambda>(i, r). error_entry i (normalize r) (csvRowSchema_details ok (normalize r)))
       (filter (\<lambda>(i, r). invalid_record ok r) (zip [1..<Suc (length rs)] rs))
   \<and> map row (row_errors ok rs) = map fst (filter (\<lambda>(i, r). invalid_record ok r) (zip [1..<Suc (length rs)] rs))
   \<and> (\<not> invalid_record ok r1 \<and> invalid_record ok r2 \<and> \<not> invalid_record ok r3 \<longrightarrow>
        map row (row_errors ok [r1, r2, r3]) = [2])"
  by (auto simp: row_errors_def parse_records_shape error_entry_def split_def comp_def)

lemma three_records_validity:
  "\<not> invalid_record sample_email [(''name'', ''Alice''), (''phone'', ''+14155551234'')]"
  "invalid_record sample_email [(''name'', ''B''), (''phone'', ''+14155551235'')]"
  "\<not> invalid_record sample_email [(''name'', ''Carol''), (''phone'', ''+14155551236'')]"
  by (simp_all add: invalid_record_def validator_defs Let_def)

theorem row_numbers_witness:
  "\<not> invalid_record sample_email [(''name'', ''Alice''), (''phone'', ''+14155551234'')] \<and>
   invalid_record sample_email [(''name'', ''B''), (''phone'', ''+14155551235'')] \<and>
   \<not> invalid_record sample_email [(''name'', ''Carol''), (''phone'', ''+14155551236'')] \<and>
   map row (row_errors sample_email three_records) = [2]"
proof -
  have h: "\<not> invalid_record sample_email [(''name'', ''Alice''), (''phone'', ''+14155551234'')] \<and>
           invalid_record sample_email [(''name'', ''B''), (''phone'', ''+14155551235'')] \<and>
           \<not> invalid_record sample_email [(''name'', ''Carol''), (''phone'', ''+14155551236'')]"
    by (simp add: three_records_validity)
  from row_numbers [of sample_email "[]" "[(''name'', ''Alice''), (''phone'', ''+14155551234'')]"
      "[(''name'', ''B''), (''phone'', ''+14155551235'')]" "[(''name'', ''Carol''), (''phone'', ''+14155551236'')]"] h
  have "map row (row_errors sample_email
          [[(''name'', ''Alice''), (''phone'', ''+14155551234'')],
           [(''name'', ''B''), (''phone'', ''+14155551235'')],
           [(''name'', ''Carol''), (''phone'', ''+14155551236'')]]) = [2]"
    by blast
  with h show ?thesis
    by (simp only: three_records_def simp_thms)
qed

section \<open>Bulk writer\<close>

text \<open>Whatever the collation, an insert keeps the table in front and adds rows of the batch.\<close>

lemma insert_ignore_appends:
  "\<exists>new. insert_ignore coll tbl vs = (tbl @ new, length new) \<and> set new \<subseteq> set vs \<and>
         length new \<le> length vs"
proof (induction vs arbitrary: tbl)
  case Nil
  show ?case by simp
next
  case (Cons v vs)
  show ?case
  proof (cases "list_ex (unique_phone_email coll v) tbl")
    case True
    from Cons.IH [of tbl] obtain new where
      "insert_ignore coll tbl vs = (tbl @ new, length new)" "set new \<subseteq> set vs" "length new \<le> length vs"
      by blast
    with True have "insert_ignore coll tbl (v # vs) = (tbl @ new, length new) \<and> set new \<subseteq> set (v # vs) \<and>
         length new \<le> length (v # vs)"
      by auto
    then show ?thesis by (rule exI)
  next
    case False
    from Cons.IH [of "tbl @ [v]"] obtain new where
      "insert_ignore coll (tbl @ [v]) vs = ((tbl @ [v]) @ new, length new)" "set new \<subseteq> set vs"
      "length new \<le> length vs"
      by blast
    with False have "insert_ignore coll tbl (v # vs) = (tbl @ (v # new), length (v # new)) \<and>
         set (v # new) \<subseteq> set (v # vs) \<and> length (v # new) \<le> length (v # vs)"
      by auto
    then show ?thesis by (rule exI)
  qed
qed

lemma affected_le: "snd (insert_ignore coll tbl vs) \<le> length vs"
  using insert_ignore_appends [of coll tbl vs] by auto

lemma bulkCreate_leads:
  "\<exists>new. leads (snd (bulkCreate e w rows)) = leads w @ new \<and> set new \<subseteq> lead_values ` set rows"
proof (cases "fault e BulkInsert = None \<and> rows \<noteq> []")
  case True
  from insert_ignore_appends [of "collation e" "leads w" "map lead_values rows"] obtain new where
    n: "insert_ignore (collation e) (leads w) (map lead_values rows) = (leads w @ new, length new)"
      "set new \<subseteq> set (map lead_values rows)"
    by blast
  from True n(1) have "leads (snd (bulkCreate e w rows)) = leads w @ new"
    by (simp add: bulkCreate_def Let_def)
  with n(2) have "leads (snd (bulkCreate e w rows)) = leads w @ new \<and> set new \<subseteq> lead_values ` set rows"
    by simp
  then show ?thesis by (rule exI)
next
  case False
  then have "leads (snd (bulkCreate e w rows)) = leads w @ [] \<and> set [] \<subseteq> lead_values ` set rows"
    by (auto simp: bulkCreate_def Let_def split: option.splits)
  then show ?thesis by (rule exI)
qed

lemma sample_collation_values:
  "sample_collation ''a@x.com'' = ''a@x.com''"
  "sample_collation ''b@x.com'' = ''b@x.com''"
  "sample_collation ''A@x.com'' = ''a@x.com''"
  "sample_collation ''+14155551234'' = ''+14155551234''"
  "sample_collation ''+14155551236'' = ''+14155551236''"
  by (simp_all add: sample_collation_def ascii_lower_def)

lemma bob_after_alice:
  "bulkCreate sample_env known_world [bob_row] =
     (Inr 1, known_world\<lparr>leads := [alice_lead, lead_values bob_row], mysql_executes := 1\<rparr>)"
  by (simp add: bulkCreate_def Let_def unique_phone_email_def same_value_def sample_collation_values
        lead_values_def or_else_def sample_defs)

text \<open>
  C3, evaluated where the code breaks it. Alice's phone is in the store, and the batch holds
  one row with that phone and another email. The key of the insert is the pair (phone,
  email), so the row is inserted, not skipped, and the count returned is 1.
\<close>

theorem known_phone_new_email_is_inserted:
  "bulkCreate sample_env known_world [bob_row] =
     (Inr 1, known_world\<lparr>leads := [alice_lead, lead_values bob_row], mysql_executes := 1\<rparr>)
   \<and> lead_phone alice_lead = phone bob_row"
  by (simp add: bob_after_alice) (simp add: alice_lead_def bob_row_def)

text \<open>
  On the same store the duplicate check of the single-lead path does find Alice for that
  row: there a known phone is a duplicate.
\<close>

lemma sibling_check_finds_alice:
  "findByPhoneOrEmail (collation sample_env) (leads known_world) (phone bob_row) (email bob_row) = Some alice_lead"
  by (simp add: findByPhoneOrEmail_def same_value_def sample_defs)

text \<open>
  The other two clauses of the key, on sample rows: a row is skipped when phone and email are
  in the store up to case, and a row without an email is never skipped, also not as a copy
  of the row before it.
\<close>

lemma capital_email_is_skipped:
  "bulkCreate sample_env known_world [alice_row] = (Inr 0, known_world\<lparr>mysql_executes := 1\<rparr>)"
  by (simp add: bulkCreate_def Let_def unique_phone_email_def same_value_def sample_collation_values
        lead_values_def or_else_def sample_defs)

lemma row_without_email_is_inserted_twice:
  "bulkCreate sample_env empty_world [carol_row, carol_row] =
     (Inr 2, empty_world\<lparr>leads := [lead_values carol_row, lead_values carol_row], mysql_executes := 1\<rparr>)"
  by (simp add: bulkCreate_def Let_def unique_phone_email_def same_value_def
        lead_values_def or_else_def sample_defs)

text \<open>
  C10. The leads that \<open>bulkCreate\<close> adds to the store come from rows of the batch, each
  with status \<open>new\<close> and with the source of its row, or \<open>csv_import\<close> when the row has no
  source or an empty one. For the empty batch the result is 0 and the world is untouched: no
  statement was executed.
\<close>

theorem bulkCreate_status_and_source:
  "(\<exists>new. leads (snd (bulkCreate e w rows)) = leads w @ new \<and>
      (\<forall>x\<in>set new. \<exists>r\<in>set rows.
          lead_name x = name r \<and> lead_phone x = phone r \<and> lead_status x = NEW \<and>
          lead_source x = Some (case source r of None \<Rightarrow> ''csv_import''
                                 | Some s \<Rightarrow> if s = [] then ''csv_import'' else s)))
   \<and> bulkCreate e w [] = (Inr 0, w)"
proof
  from bulkCreate_leads [of e w rows] obtain new where
    n: "leads (snd (bulkCreate e w rows)) = leads w @ new" "set new \<subseteq> lead_values ` set rows"
    by blast
  have "\<exists>r\<in>set rows. lead_name x = name r \<and> lead_phone x = phone r \<and> lead_status x = NEW \<and>
          lead_source x = Some (case source r of None \<Rightarrow> ''csv_import''
                                 | Some s \<Rightarrow> if s = [] then ''csv_import'' else s)"
    if "x \<in> set new" for x
  proof -
    from that n(2) obtain r where "r \<in> set rows" "x = lead_values r" by blast
    then show ?thesis
      by (auto simp: lead_values_def or_else_def split: option.splits intro!: bexI [of _ r])
  qed
  with n(1) show "\<exists>new. leads (snd (bulkCreate e w rows)) = leads w @ new \<and>
      (\<forall>x\<in>set new. \<exists>r\<in>set rows.
          lead_name x = name r \<and> lead_phone x = phone r \<and> lead_status x = NEW \<and>
          lead_source x = Some (case source r of None \<Rightarrow> ''csv_import''
                                 | Some s \<Rightarrow> if s = [] then ''csv_import'' else s))"
    by blast
next
  show "bulkCreate e w [] = (Inr 0, w)"
    by (simp add: bulkCreate_def)
qed

theorem bulkCreate_status_and_source_witness:
  "leads (snd (bulkCreate sample_env known_world [bob_row])) = leads known_world @ [lead_values bob_row] \<and>
   lead_status (lead_values bob_row) = NEW \<and>
   lead_source (lead_values bob_row) = Some ''csv_import'' \<and>
   bulkCreate sample_env known_world [] = (Inr 0, known_world)"
proof -
  have l: "leads (snd (bulkCreate sample_env known_world [bob_row])) = leads known_world @ [lead_values bob_row]"
    by (simp add: bob_after_alice) (simp add: known_world_def)
  from bulkCreate_status_and_source [of sample_env known_world "[bob_row]"] obtain new where
    n: "leads (snd (bulkCreate sample_env known_world [bob_row])) = leads known_world @ new"
    and a: "\<forall>x\<in>set new. \<exists>r\<in>set [bob_row].
          lead_name x = name r \<and> lead_phone x = phone r \<and> lead_status x = NEW \<and>
          lead_source x = Some (case source r of None \<Rightarrow> ''csv_import''
                                 | Some s \<Rightarrow> if s = [] then ''csv_import'' else s)"
    and z: "bulkCreate sample_env known_world [] = (Inr 0, known_world)"
    by blast
  from l n have "new = [lead_values bob_row]"
    by simp
  with a have "lead_status (lead_values bob_row) = NEW \<and>
      lead_source (lead_values bob_row) = Some (case source bob_row of None \<Rightarrow> ''csv_import''
                                 | Some s \<Rightarrow> if s = [] then ''csv_import'' else s)"
    by simp
  with l z show ?thesis
    by (simp add: bob_row_def)
qed

section \<open>Staging uploader\<close>

lemma show_now: "show_nat 1700000000000 = ''1700000000000''"
  by (simp add: digit_char_def)

lemma leads_csv_name: "replace_spaces ''leads.csv'' = ''leads.csv''"
  by (simp add: is_space_def)

lemma sample_key_eq: "csv_key 1700000000000 ''leads.csv'' = sample_key"
  by (simp only: csv_key_def show_now leads_csv_name sample_key_def) simp

lemma key_sample_env: "generateCsvUploadUrl sample_env ''leads.csv'' = Inr sample_key"
  by (simp add: generateCsvUploadUrl_def sample_env_def no_fault_def sample_key_eq Let_def
        del: show_nat.simps)

lemma key_second_env: "generateCsvUploadUrl second_env ''leads.csv'' = Inr sample_key"
  by (simp add: generateCsvUploadUrl_def second_env_def sample_env_def no_fault_def sample_key_eq Let_def
        del: show_nat.simps)

lemma sample_key_nonempty: "sample_key \<noteq> []"
  by (simp add: sample_key_def)

lemma upload_sample:
  "uploadCsvForProcessing sample_env empty_world alice_file 7 =
     (Inr \<lparr>res_csvLogId = ''665f1c2ab7e4d90012345678'', res_s3Key = sample_key,
           res_message = ''CSV uploaded successfully and queued for processing''\<rparr>, staged_world)"
  by (simp add: uploadCsvForProcessing_def alice_file_def key_sample_env)
     (simp add: uploadBuffer_def CsvLog_create_def required_paths_def sample_key_nonempty
        sendToProcessingQueue_def sqs_send_def processing_command_def
        JSON_stringify_def sample_env_def no_fault_def empty_world_def staged_world_def pending_log_def
        job_message_def job_body_def)

lemma upload_second:
  "uploadCsvForProcessing second_env staged_world bob_file 8 =
     (Inr \<lparr>res_csvLogId = ''665f1c2ab7e4d90012345679'', res_s3Key = sample_key,
           res_message = ''CSV uploaded successfully and queued for processing''\<rparr>,
      staged_world\<lparr>s3_csv := [(sample_key, bob_csv)],
         csv_logs := [(''665f1c2ab7e4d90012345678'', pending_log),
                      (''665f1c2ab7e4d90012345679'', pending_log\<lparr>upload_user_id := 8\<rparr>)],
         queue := [job_message,
                   \<lparr>Body = Some (Text (JObj [(''csvLogId'', JStr ''665f1c2ab7e4d90012345679''),
                              (''s3Key'', JStr sample_key), (''userId'', JNum 8)])),
                     ReceiptHandle = 1,
                     Attributes = [(''jobType'', \<lparr>DataType = ''String'', StringValue = ''csv_processing''\<rparr>)]\<rparr>],
         next_handle := 2\<rparr>)"
  by (simp add: uploadCsvForProcessing_def bob_file_def key_second_env)
     (simp add: uploadBuffer_def CsvLog_create_def required_paths_def
        sendToProcessingQueue_def sqs_send_def processing_command_def
        JSON_stringify_def second_env_def sample_env_def no_fault_def staged_world_def pending_log_def
        job_message_def job_body_def sample_key_def)

lemma uploadBuffer_Inr:
  "uploadBuffer e w buf key = (Inr u, w1) \<Longrightarrow> queue w1 = queue w \<and> next_handle w1 = next_handle w"
  by (auto simp: uploadBuffer_def split: option.splits)

lemma CsvLog_create_Inr:
  "CsvLog_create e w doc = (Inr oid, w1) \<Longrightarrow> queue w1 = queue w \<and> next_handle w1 = next_handle w"
  by (auto simp: CsvLog_create_def split: option.splits if_splits)

lemma sendToProcessingQueue_Inr:
  "sendToProcessingQueue e w d = (Inr u, w1) \<Longrightarrow>
     queue w1 = queue w @
       [\<lparr>Body = Some (Text (JObj [(''csvLogId'', JStr (csvLogId d)), (''s3Key'', JStr (s3Key d)),
                                  (''userId'', JNum (userId d))])),
         ReceiptHandle = next_handle w,
         Attributes = [(''jobType'', \<lparr>DataType = ''String'', StringValue = ''csv_processing''\<rparr>)]\<rparr>]"
  by (auto simp: sendToProcessingQueue_def sqs_send_def processing_command_def JSON_stringify_def
        split: option.splits)

lemma upload_Inr:
  assumes "uploadCsvForProcessing e w file uid = (Inr res, w')"
  shows "\<exists>key w1 oid w2 u u'.
           uploadBuffer e w (buffer file) key = (Inr u, w1) \<and>
           CsvLog_create e w1
             \<lparr>file_name = originalname file, s3_key = key, upload_user_id = uid, status = pending,
              total_rows = 0, successful_imports = 0, failed_imports = 0,
              validation_errors = [], error_report = None, processing_time_ms = None,
              started_at = None, created_at = now e, completed_at = None\<rparr> = (Inr oid, w2) \<and>
           sendToProcessingQueue e w2 \<lparr>csvLogId = oid, s3Key = key, userId = uid\<rparr> = (Inr u', w') \<and>
           res_csvLogId res = oid \<and> res_s3Key res = key"
  using assms
  by (auto simp: uploadCsvForProcessing_def Let_def split: if_splits sum.splits prod.splits) blast+

lemma upload_queue:
  assumes "uploadCsvForProcessing e w file uid = (Inr res, w')"
  shows "queue w' = queue w @
        [\<lparr>Body = Some (Text (JObj [(''csvLogId'', JStr (res_csvLogId res)), (''s3Key'', JStr (res_s3Key res)),
                                   (''userId'', JNum uid)])),
          ReceiptHandle = next_handle w,
          Attributes = [(''jobType'', \<lparr>DataType = ''String'', StringValue = ''csv_processing''\<rparr>)]\<rparr>]"
proof -
  from upload_Inr [OF assms] obtain key w1 oid w2 u u' where
    a: "uploadBuffer e w (buffer file) key = (Inr u, w1)"
    and b: "CsvLog_create e w1
             \<lparr>file_name = originalname file, s3_key = key, upload_user_id = uid, status = pending,
              total_rows = 0, successful_imports = 0, failed_imports = 0,
              validation_errors = [], error_report = None, processing_time_ms = None,
              started_at = None, created_at = now e, completed_at = None\<rparr> = (Inr oid, w2)"
    and c: "sendToProcessingQueue e w2 \<lparr>csvLogId = oid, s3Key = key, userId = uid\<rparr> = (Inr u', w')"
    and r: "res_csvLogId res = oid" "res_s3Key res = key"
    by blast
  from uploadBuffer_Inr [OF a] CsvLog_create_Inr [OF b] sendToProcessingQueue_Inr [OF c] r
  show ?thesis by simp
qed

lemma worker_reads:
  "handle_message e2 w2
     \<lparr>Body = Some (Text (JObj [(''csvLogId'', JStr a), (''s3Key'', JStr b), (''userId'', JNum n)])),
      ReceiptHandle = h, Attributes = at\<rparr>
   = (case processCsvFile e2 w2 a b of
        (Inl x, w1) \<Rightarrow> Some w1
      | (Inr u, w1) \<Rightarrow> Some (snd (deleteMessage e2 w1 h)))"
  by (simp add: handle_message_def JSON_parse_def body_or_default_def get_property_def
        split: prod.splits sum.splits)

text \<open>
  C5, as amended. A successful upload puts exactly one message on the queue. Its body is the
  JSON object with the fields \<open>csvLogId\<close> (string), \<open>s3Key\<close> (string) and \<open>userId\<close>
  (number), in the code's own names, and its one attribute is the string
  \<open>jobType = "csv_processing"\<close>. The worker reads \<open>csvLogId\<close> and \<open>s3Key\<close> back from such
  a body and processes exactly that job, deleting the message when \<open>processCsvFile\<close> returns.
\<close>

theorem job_descriptor_shape:
  "(uploadCsvForProcessing e w file uid = (Inr res, w') \<longrightarrow>
      queue w' = queue w @
        [\<lparr>Body = Some (Text (JObj [(''csvLogId'', JStr (res_csvLogId res)), (''s3Key'', JStr (res_s3Key res)),
                                   (''userId'', JNum uid)])),
          ReceiptHandle = next_handle w,
          Attributes = [(''jobType'', \<lparr>DataType = ''String'', StringValue = ''csv_processing''\<rparr>)]\<rparr>])
   \<and> handle_message e2 w2
        \<lparr>Body = Some (Text (JObj [(''csvLogId'', JStr a), (''s3Key'', JStr b), (''userId'', JNum n)])),
         ReceiptHandle = h, Attributes = at\<rparr>
       = (case processCsvFile e2 w2 a b of
            (Inl x, w1) \<Rightarrow> Some w1
          | (Inr u, w1) \<Rightarrow> Some (snd (deleteMessage e2 w1 h)))"
proof (intro conjI impI)
  assume "uploadCsvForProcessing e w file uid = (Inr res, w')"
  then show "queue w' = queue w @
        [\<lparr>Body = Some (Text (JObj [(''csvLogId'', JStr (res_csvLogId res)), (''s3Key'', JStr (res_s3Key res)),
                                   (''userId'', JNum uid)])),
          ReceiptHandle = next_handle w,
          Attributes = [(''jobType'', \<lparr>DataType = ''String'', StringValue = ''csv_processing''\<rparr>)]\<rparr>]"
    by (rule upload_queue)
qed (rule worker_reads)

theorem job_descriptor_shape_witness:
  "uploadCsvForProcessing sample_env empty_world alice_file 7 =
     (Inr \<lparr>res_csvLogId = ''665f1c2ab7e4d90012345678'', res_s3Key = sample_key,
           res_message = ''CSV uploaded successfully and queued for processing''\<rparr>, staged_world)
   \<and> queue staged_world =
        [\<lparr>Body = Some (Text (JObj [(''csvLogId'', JStr ''665f1c2ab7e4d90012345678''), (''s3Key'', JStr sample_key),
                                   (''userId'', JNum 7)])),
          ReceiptHandle = 0,
          Attributes = [(''jobType'', \<lparr>DataType = ''String'', StringValue = ''csv_processing''\<rparr>)]\<rparr>]"
proof -
  note h = upload_sample
  from job_descriptor_shape [of sample_env empty_world alice_file 7
      "\<lparr>res_csvLogId = ''665f1c2ab7e4d90012345678'', res_s3Key = sample_key,
        res_message = ''CSV uploaded successfully and queued for processing''\<rparr>" staged_world] h
  have "queue staged_world = queue empty_world @
        [\<lparr>Body = Some (Text (JObj [(''csvLogId'', JStr ''665f1c2ab7e4d90012345678''), (''s3Key'', JStr sample_key),
                                   (''userId'', JNum 7)])),
          ReceiptHandle = next_handle empty_world,
          Attributes = [(''jobType'', \<lparr>DataType = ''String'', StringValue = ''csv_processing''\<rparr>)]\<rparr>]"
    by simp
  with h show ?thesis
    by (simp add: empty_world_def)
qed

text \<open>
  C5 as stated fails: the body that the upload enqueues has no field \<open>jobId\<close>,
  \<open>storageKey\<close> or \<open>uploaderId\<close>.
\<close>

theorem job_body_has_no_jobId:
  "queue (snd (uploadCsvForProcessing sample_env empty_world alice_file 7)) = [job_message]
   \<and> Body job_message = Some (Text job_body)
   \<and> get_property job_body ''jobId'' = Inr None
   \<and> get_property job_body ''storageKey'' = Inr None
   \<and> get_property job_body ''uploaderId'' = Inr None"
  by (simp add: upload_sample) (simp add: staged_world_def job_message_def job_body_def get_property_def)

text \<open>
  C6, evaluated where the code breaks it. Two uploads of files called \<open>leads.csv\<close>, served
  in the same millisecond, both succeed and receive the same key; afterwards the object store
  holds only the bytes of the second under that key, while both jobs point to it.
\<close>

theorem same_millisecond_same_key:
  "fst (uploadCsvForProcessing sample_env empty_world alice_file 7) =
     Inr \<lparr>res_csvLogId = ''665f1c2ab7e4d90012345678'', res_s3Key = sample_key,
          res_message = ''CSV uploaded successfully and queued for processing''\<rparr>
   \<and> fst (uploadCsvForProcessing second_env
             (snd (uploadCsvForProcessing sample_env empty_world alice_file 7)) bob_file 8) =
     Inr \<lparr>res_csvLogId = ''665f1c2ab7e4d90012345679'', res_s3Key = sample_key,
          res_message = ''CSV uploaded successfully and queued for processing''\<rparr>
   \<and> s3_csv (snd (uploadCsvForProcessing second_env
             (snd (uploadCsvForProcessing sample_env empty_world alice_file 7)) bob_file 8)) =
     [(sample_key, bob_csv)]"
  by (simp add: upload_sample upload_second)

text \<open>
  C9. An upload whose MIME type is neither \<open>text/csv\<close> nor \<open>application/vnd.ms-excel\<close>, or
  whose size is above 10 MiB, is rejected with a \<open>ValidationError\<close> and the world is the one
  before the call: nothing was stored, no job was created, nothing was queued, and the
  uploader's history reads as before.
\<close>

theorem rejected_upload_leaves_no_state:
  "(mimetype file \<noteq> ''text/csv'' \<and> mimetype file \<noteq> ''application/vnd.ms-excel'') \<or>
   10 * 1024 * 1024 < file_size file \<longrightarrow>
     (\<exists>m. uploadCsvForProcessing e w file uid = (Inl (ValidationError m), w)) \<and>
     getUserCsvHistory (snd (uploadCsvForProcessing e w file uid)) u n = getUserCsvHistory w u n"
  by (auto simp: uploadCsvForProcessing_def)

theorem rejected_upload_leaves_no_state_witness:
  "mimetype json_file \<noteq> ''text/csv'' \<and> mimetype json_file \<noteq> ''application/vnd.ms-excel'' \<and>
   10 * 1024 * 1024 < file_size large_file \<and>
   (\<exists>m. uploadCsvForProcessing sample_env staged_world json_file 7 = (Inl (ValidationError m), staged_world)) \<and>
   (\<exists>m. uploadCsvForProcessing sample_env staged_world large_file 7 = (Inl (ValidationError m), staged_world)) \<and>
   getUserCsvHistory (snd (uploadCsvForProcessing sample_env staged_world large_file 7)) 7 10 =
     getUserCsvHistory staged_world 7 10"
proof -
  have h1: "mimetype json_file \<noteq> ''text/csv'' \<and> mimetype json_file \<noteq> ''application/vnd.ms-excel''"
    by (simp add: json_file_def)
  have h2: "10 * 1024 * 1024 < file_size large_file"
    by (simp add: large_file_def)
  from rejected_upload_leaves_no_state [of json_file sample_env staged_world 7 7 10] h1
  have a: "\<exists>m. uploadCsvForProcessing sample_env staged_world json_file 7 = (Inl (ValidationError m), staged_world)"
    by blast
  from rejected_upload_leaves_no_state [of large_file sample_env staged_world 7 7 10] h2
  have b: "(\<exists>m. uploadCsvForProcessing sample_env staged_world large_file 7 = (Inl (ValidationError m), staged_world)) \<and>
     getUserCsvHistory (snd (uploadCsvForProcessing sample_env staged_world large_file 7)) 7 10 =
       getUserCsvHistory staged_world 7 10"
    by blast
  from h1 h2 a b show ?thesis by blast
qed

section \<open>Worker\<close>

lemma map_of_updateOne:
  "map_of (csv_logs (updateOne i f w)) j =
     (if j = i then map_option f (map_of (csv_logs w) i) else map_of (csv_logs w) j)"
proof -
  have "map_of (map (\<lambda>(k, l). if k = i then (k, f l) else (k, l)) xs) j =
          (if j = i then map_option f (map_of xs i) else map_of xs j)" for xs
    by (induction xs) auto
  then show ?thesis by (simp add: updateOne_def)
qed

lemma updateOne_other:
  "s3_csv (updateOne i f w) = s3_csv w" "leads (updateOne i f w) = leads w"
  "queue (updateOne i f w) = queue w" "mysql_executes (updateOne i f w) = mysql_executes w"
  "next_handle (updateOne i f w) = next_handle w"
  by (simp_all add: updateOne_def)

lemma bulkCreate_Inr:
  assumes "bulkCreate e w rows = (Inr n, w2)"
  shows "n = snd (insert_ignore (collation e) (leads w) (map lead_values rows))"
    and "csv_logs w2 = csv_logs w" and "queue w2 = queue w" and "s3_csv w2 = s3_csv w"
  using assms
  by (auto simp: bulkCreate_def Let_def split: if_splits option.splits prod.splits)

lemma bulkCreate_Inl:
  assumes "bulkCreate e w rows = (Inl x, w2)"
  shows "csv_logs w2 = csv_logs w" and "queue w2 = queue w" and "s3_csv w2 = s3_csv w" and "leads w2 = leads w"
  using assms
  by (auto simp: bulkCreate_def Let_def split: if_splits option.splits prod.splits)

text \<open>A \<open>try\<close> block that ends normally has gone through every step.\<close>

lemma process_try_Inr:
  assumes "process_try e w i key = (Inr u, w')"
  shows "\<exists>body records n w2.
           map_of (s3_csv w) key = Some body \<and> csv_parser e body = Inr records \<and>
           bulkCreate e (updateOne i (\<lambda>l. l\<lparr>status := processing, started_at := Some (now e)\<rparr>) w)
              (valid_rows (joi_email e) records) = (Inr n, w2) \<and>
           w' = updateOne i
                  (\<lambda>l. l\<lparr>status := completed,
                         total_rows := length (valid_rows (joi_email e) records)
                                        + length (row_errors (joi_email e) records),
                         successful_imports := n,
                         failed_imports := length (row_errors (joi_email e) records),
                         validation_errors := row_errors (joi_email e) records,
                         processing_time_ms := Some 0,
                         completed_at := Some (now e)\<rparr>) w2"
  using assms
  by (auto simp: process_try_def Let_def valid_rows_def row_errors_def updateOne_other
           split: option.splits sum.splits prod.splits)

text \<open>A \<open>try\<close> block that throws has at most marked the job as processing.\<close>

lemma process_try_Inl:
  assumes "process_try e w i key = (Inl x, w')"
  shows "queue w' = queue w \<and>
         (csv_logs w' = csv_logs w \<or>
          csv_logs w' = csv_logs (updateOne i (\<lambda>l. l\<lparr>status := processing, started_at := Some (now e)\<rparr>) w))"
  using assms
  by (auto simp: process_try_def Let_def updateOne_other
           split: option.splits sum.splits prod.splits
           dest: bulkCreate_Inl(1,2) bulkCreate_Inr(2,3))

text \<open>
  Whenever \<open>processCsvFile\<close> returns, also after a failed pipeline, the worker goes on to
  delete the message.
\<close>

lemma returned_job_is_acknowledged:
  assumes "processCsvFile e w i key = (Inr u, w1)" and "fault e SqsDelete = None"
  shows "\<exists>w'. handle_message e w
                 \<lparr>Body = Some (Text (JObj [(''csvLogId'', JStr i), (''s3Key'', JStr key), (''userId'', JNum n)])),
                  ReceiptHandle = h, Attributes = at\<rparr> = Some w' \<and>
              queue w' = filter (\<lambda>m. ReceiptHandle m \<noteq> h) (queue w1) \<and> csv_logs w' = csv_logs w1"
  using assms
  by (simp add: handle_message_def JSON_parse_def body_or_default_def get_property_def deleteMessage_def)

lemma known_world_run:
  "processCsvFile sample_env known_world ''665f1c2ab7e4d90012345678'' sample_key =
     (Inr (), known_world\<lparr>csv_logs := [(''665f1c2ab7e4d90012345678'',
              pending_log\<lparr>status := completed, total_rows := 1, successful_imports := 0, failed_imports := 0,
                 started_at := Some 1700000000000, processing_time_ms := Some 0,
                 completed_at := Some 1700000000000\<rparr>)],
            mysql_executes := 1\<rparr>)"
  by (simp add: worker_defs validator_defs sample_defs Let_def unique_phone_email_def same_value_def)

lemma db_down_run:
  "processCsvFile db_down_env staged_world ''665f1c2ab7e4d90012345678'' sample_key =
     (Inr (), staged_world\<lparr>csv_logs := [(''665f1c2ab7e4d90012345678'',
              pending_log\<lparr>status := failed, started_at := Some 1700000000000,
                 error_report := Some ''connect ECONNREFUSED'', completed_at := Some 1700000000000\<rparr>)],
            mysql_executes := 1\<rparr>)"
  by (simp add: worker_defs validator_defs sample_defs Let_def)

lemma sample_try_outcomes:
  "\<not> isl (fst (process_try sample_env known_world ''665f1c2ab7e4d90012345678'' sample_key))"
  "isl (fst (process_try db_down_env staged_world ''665f1c2ab7e4d90012345678'' sample_key))"
  by (simp_all add: worker_defs validator_defs sample_defs Let_def unique_phone_email_def same_value_def)

text \<open>
  C1, evaluated where the code breaks it. The job is staged and its message is on the queue;
  the database refuses the connection during the bulk insert. \<open>processCsvFile\<close> records
  the failure (status failed, \<open>error_report\<close> set) and returns normally, so the worker
  deletes the message: the queue is empty afterwards and nothing will deliver the job again.
\<close>

theorem failed_job_message_is_deleted:
  "handle_message db_down_env staged_world job_message =
     Some (staged_world\<lparr>csv_logs := [(''665f1c2ab7e4d90012345678'',
              pending_log\<lparr>status := failed, started_at := Some 1700000000000,
                 error_report := Some ''connect ECONNREFUSED'', completed_at := Some 1700000000000\<rparr>)],
            queue := [], mysql_executes := 1\<rparr>)"
  by (simp add: handle_message_def JSON_parse_def body_or_default_def get_property_def job_message_def
        job_body_def db_down_run deleteMessage_def)
     (simp add: db_down_env_def sample_env_def no_fault_def staged_world_def job_message_def)

text \<open>
  C2, as amended. Let the job exist. A run whose pipeline goes through ends in completed with
  \<open>failed_imports\<close> the number of validation errors, \<open>successful_imports\<close> the number of
  rows the insert added, and \<open>total_rows\<close> the number of valid rows plus \<open>failed_imports\<close>;
  so \<open>successful_imports + failed_imports \<le> total_rows\<close>, short by the valid rows that were
  skipped as duplicates. A run whose pipeline throws leaves the three counters as they were
  and, when the failure can be written, ends in failed with \<open>error_report\<close> set.
\<close>

theorem completed_counters:
  assumes "map_of (csv_logs w) i = Some l" and "processCsvFile e w i key = (r, w')"
  shows "\<exists>l'. map_of (csv_logs w') i = Some l' \<and>
     (if isl (fst (process_try e w i key))
      then total_rows l' = total_rows l \<and> successful_imports l' = successful_imports l \<and>
           failed_imports l' = failed_imports l \<and>
           (fault e MarkFailed = None \<longrightarrow> status l' = failed \<and> error_report l' \<noteq> None)
      else \<exists>body records.
             map_of (s3_csv w) key = Some body \<and> csv_parser e body = Inr records \<and>
             status l' = completed \<and>
             failed_imports l' = length (row_errors (joi_email e) records) \<and>
             successful_imports l' =
               snd (insert_ignore (collation e) (leads w)
                      (map lead_values (valid_rows (joi_email e) records))) \<and>
             total_rows l' = length (valid_rows (joi_email e) records) + failed_imports l' \<and>
             successful_imports l' + failed_imports l' \<le> total_rows l')"
proof (cases "process_try e w i key")
  case (Pair t w1)
  show ?thesis
  proof (cases t)
    case (Inl x)
    from Pair Inl process_try_Inl [of e w i key x w1]
    have c: "csv_logs w1 = csv_logs w \<or>
          csv_logs w1 = csv_logs (updateOne i (\<lambda>l. l\<lparr>status := processing, started_at := Some (now e)\<rparr>) w)"
      by simp
    have m: "\<exists>l1. map_of (csv_logs w1) i = Some l1 \<and> total_rows l1 = total_rows l \<and>
               successful_imports l1 = successful_imports l \<and> failed_imports l1 = failed_imports l"
      using c assms(1) by (auto simp: map_of_updateOne)
    from assms(2) Pair Inl have w': "w' = (case fault e MarkFailed of Some m \<Rightarrow> w1
        | None \<Rightarrow> updateOne i (\<lambda>l. l\<lparr>status := failed, error_report := Some (exn_message x),
                       completed_at := Some (now e)\<rparr>) w1)"
      by (auto simp: processCsvFile_def split: option.splits)
    from m w' Pair Inl show ?thesis
      by (auto simp: map_of_updateOne split: option.splits)
  next
    case (Inr u)
    from Pair Inr process_try_Inr [of e w i key u w1] obtain body records n w2 where
      b: "map_of (s3_csv w) key = Some body" "csv_parser e body = Inr records"
      and bc: "bulkCreate e (updateOne i (\<lambda>l. l\<lparr>status := processing, started_at := Some (now e)\<rparr>) w)
              (valid_rows (joi_email e) records) = (Inr n, w2)"
      and w1: "w1 = updateOne i
                  (\<lambda>l. l\<lparr>status := completed,
                         total_rows := length (valid_rows (joi_email e) records)
                                        + length (row_errors (joi_email e) records),
                         successful_imports := n,
                         failed_imports := length (row_errors (joi_email e) records),
                         validation_errors := row_errors (joi_email e) records,
                         processing_time_ms := Some 0,
                         completed_at := Some (now e)\<rparr>) w2"
      by blast
    from bulkCreate_Inr(1,2) [OF bc]
    have n: "n = snd (insert_ignore (collation e) (leads w)
                       (map lead_values (valid_rows (joi_email e) records)))"
      and l2: "csv_logs w2 =
                 csv_logs (updateOne i (\<lambda>l. l\<lparr>status := processing, started_at := Some (now e)\<rparr>) w)"
      by (simp_all add: updateOne_other)
    have le: "n \<le> length (valid_rows (joi_email e) records)"
      unfolding n
      using affected_le [of "collation e" "leads w" "map lead_values (valid_rows (joi_email e) records)"]
      by simp
    from assms(2) Pair Inr have "w' = w1"
      by (simp add: processCsvFile_def)
    with w1 l2 assms(1) b n le Pair Inr show ?thesis
      by (auto simp: map_of_updateOne)
  qed
qed

theorem completed_counters_witness:
  "map_of (csv_logs staged_world) ''665f1c2ab7e4d90012345678'' = Some pending_log \<and>
   fault db_down_env MarkFailed = None \<and>
   (\<exists>l'. map_of (csv_logs (snd (processCsvFile db_down_env staged_world ''665f1c2ab7e4d90012345678'' sample_key)))
            ''665f1c2ab7e4d90012345678'' = Some l' \<and>
         status l' = failed \<and> error_report l' \<noteq> None \<and>
         total_rows l' = 0 \<and> successful_imports l' = 0 \<and> failed_imports l' = 0) \<and>
   map_of (csv_logs known_world) ''665f1c2ab7e4d90012345678'' = Some pending_log \<and>
   (\<exists>l'. map_of (csv_logs (snd (processCsvFile sample_env known_world ''665f1c2ab7e4d90012345678'' sample_key)))
            ''665f1c2ab7e4d90012345678'' = Some l' \<and>
         status l' = completed \<and> successful_imports l' + failed_imports l' \<le> total_rows l')"
proof -
  have h1: "map_of (csv_logs staged_world) ''665f1c2ab7e4d90012345678'' = Some pending_log"
    by (simp add: staged_world_def)
  have h2: "map_of (csv_logs known_world) ''665f1c2ab7e4d90012345678'' = Some pending_log"
    by (simp add: known_world_def staged_world_def)
  have h3: "fault db_down_env MarkFailed = None"
    by (simp add: db_down_env_def sample_env_def no_fault_def)
  have z: "total_rows pending_log = 0 \<and> successful_imports pending_log = 0 \<and> failed_imports pending_log = 0"
    by (simp add: pending_log_def)
  from completed_counters [OF h1 surjective_pairing, of db_down_env sample_key] sample_try_outcomes(2) h3 z
  have a: "\<exists>l'. map_of (csv_logs (snd (processCsvFile db_down_env staged_world ''665f1c2ab7e4d90012345678'' sample_key)))
            ''665f1c2ab7e4d90012345678'' = Some l' \<and>
         status l' = failed \<and> error_report l' \<noteq> None \<and>
         total_rows l' = 0 \<and> successful_imports l' = 0 \<and> failed_imports l' = 0"
    by auto
  from completed_counters [OF h2 surjective_pairing, of sample_env sample_key] sample_try_outcomes(1)
  have b: "\<exists>l'. map_of (csv_logs (snd (processCsvFile sample_env known_world ''665f1c2ab7e4d90012345678'' sample_key)))
            ''665f1c2ab7e4d90012345678'' = Some l' \<and>
         status l' = completed \<and> successful_imports l' + failed_imports l' \<le> total_rows l'"
    by auto
  from h1 h2 h3 a b show ?thesis by blast
qed

text \<open>
  C2 as stated fails: the one row of the file is valid and already known, so the job
  completes with \<open>total_rows = 1\<close> and \<open>successful_imports = failed_imports = 0\<close>.
\<close>

theorem duplicate_row_breaks_the_sum:
  "job_counters (snd (processCsvFile sample_env known_world ''665f1c2ab7e4d90012345678'' sample_key))
     ''665f1c2ab7e4d90012345678'' = Some (completed, 1, 0, 0)"
  by (simp add: known_world_run) (simp add: job_counters_def counters_def pending_log_def)

end
